theory Spec2Isabelle
  imports Complex_Main "HOL-Library.Multiset"
begin

section \<open>Script-to-video alignment worker (backend/app/workers/alignment.py)\<close>

text \<open>
  The alignment worker passes dictionaries around. Each kind of dictionary is a record
  here, with one field per key. A key that the code reads with \<^verbatim>\<open>.get(key, default)\<close>
  or that is only written by a later stage is an \<open>option\<close> field, \<open>None\<close> standing
  for the absent key. Python floats are modelled as real numbers, Python ints as
  \<open>int\<close> or \<open>nat\<close> (lengths and indices).
\<close>

subsection \<open>Data model\<close>

text \<open>An entry of \<^verbatim>\<open>alternative_matches\<close> (keys segment_id, start_time, end_time, confidence).\<close>

record alt_match =
  alt_segment_id :: string
  alt_start_time :: real
  alt_end_time :: real
  alt_confidence :: real

text \<open>The \<^verbatim>\<open>confidence_factors\<close> dictionary of an alignment.\<close>

record confidence_factors =
  semantic_similarity :: real
  length_similarity :: real
  position_similarity :: real
  transcript_confidence :: real

text \<open>
  An alignment dictionary. The matcher creates it without the keys
  \<^verbatim>\<open>temporal_conflict\<close>, \<^verbatim>\<open>manual_review_required\<close> and \<^verbatim>\<open>flagged_reason\<close>;
  the refiner adds them.
\<close>

record alignment =
  scene_number :: int
  scene_text :: string
  matched_segment_id :: string
  video_start_time :: real
  video_end_time :: real
  confidence :: real
  confidence_factors :: confidence_factors
  alternative_matches :: "alt_match list"
  temporal_conflict :: "bool option"
  manual_review_required :: "bool option"
  flagged_reason :: "string option"

subsection \<open>Temporal refiner: \<^verbatim>\<open>refine_alignment_temporal\<close>\<close>

text \<open>\<^verbatim>\<open>settings.ALIGNMENT_CONFIDENCE_THRESHOLD\<close> (core/config.py).\<close>

definition ALIGNMENT_CONFIDENCE_THRESHOLD :: real where
  "ALIGNMENT_CONFIDENCE_THRESHOLD = 7 / 10"

definition overlap_penalty :: real where
  "overlap_penalty = 3 / 10"

text \<open>
  The inner \<^verbatim>\<open>for alt_match in current['alternative_matches']\<close> loop: the first
  alternative that starts at or after the end of the previous alignment replaces the
  match and clears the conflict; the loop then breaks.
\<close>

fun use_alternative :: "alignment \<Rightarrow> alignment \<Rightarrow> alt_match list \<Rightarrow> alignment" where
  "use_alternative previous current [] = current"
| "use_alternative previous current (alt # alts) =
     (if alt_start_time alt \<ge> video_end_time previous
      then current\<lparr>video_start_time := alt_start_time alt,
                   video_end_time := alt_end_time alt,
                   matched_segment_id := alt_segment_id alt,
                   confidence := alt_confidence alt,
                   temporal_conflict := Some False\<rparr>
      else use_alternative previous current alts)"

text \<open>The body of the loop over \<open>i\<close>, for the pair \<open>(previous, current)\<close>.\<close>

definition refine_pair :: "alignment \<Rightarrow> alignment \<Rightarrow> alignment" where
  "refine_pair previous current =
     (if video_start_time current < video_end_time previous
      then (let penalised = current\<lparr>confidence := confidence current * (1 - overlap_penalty),
                                     temporal_conflict := Some True\<rparr>
            in use_alternative previous penalised (alternative_matches penalised))
      else current)"

text \<open>
  \<^verbatim>\<open>for i in range(1, len(refined_alignments))\<close>. The dictionaries are mutated in
  place, so \<^verbatim>\<open>refined_alignments[i-1]\<close> is the alignment as the previous iteration
  left it: the loop carries it along.
\<close>

fun temporal_walk :: "alignment \<Rightarrow> alignment list \<Rightarrow> alignment list" where
  "temporal_walk previous [] = []"
| "temporal_walk previous (current # rest) =
     (let current' = refine_pair previous current in current' # temporal_walk current' rest)"

fun apply_temporal_constraints :: "alignment list \<Rightarrow> alignment list" where
  "apply_temporal_constraints [] = []"
| "apply_temporal_constraints (first # rest) = first # temporal_walk first rest"

text \<open>The last loop: flag low-confidence alignments for manual review.\<close>

definition flag_low_confidence :: "alignment \<Rightarrow> alignment" where
  "flag_low_confidence a =
     (if confidence a < ALIGNMENT_CONFIDENCE_THRESHOLD
      then a\<lparr>manual_review_required := Some True,
             flagged_reason := Some ''low_confidence_alignment''\<rparr>
      else a\<lparr>manual_review_required := Some False\<rparr>)"

text \<open>
  The refiner. \<^verbatim>\<open>list.sort(key=...)\<close> is stable, as \<^const>\<open>sort_key\<close> is. The
  second argument \<^verbatim>\<open>transcript_data\<close> is never read by the function and is left
  out. The model has value semantics: it describes a call whose list holds distinct
  dictionary objects, as the matcher produces them.
\<close>

definition refine_alignment_temporal :: "alignment list \<Rightarrow> alignment list" where
  "refine_alignment_temporal alignments =
     map flag_low_confidence
       (apply_temporal_constraints (sort_key scene_number alignments))"

subsection \<open>Python helpers\<close>

text \<open>The exceptions the modelled code can raise.\<close>

datatype error =
  ZeroDivisionError
  | IndexError
  | ValueError
  | NoTranscriptData  \<comment> \<open>\<^verbatim>\<open>Exception("No transcript segments or words available")\<close>\<close>

text \<open>\<^verbatim>\<open>a / b\<close> on numbers.\<close>

definition truediv :: "real \<Rightarrow> real \<Rightarrow> error + real" where
  "truediv a b = (if b = 0 then Inl ZeroDivisionError else Inr (a / b))"

text \<open>\<^verbatim>\<open>xs[i]\<close> for an index that is not negative.\<close>

definition py_index :: "'a list \<Rightarrow> nat \<Rightarrow> error + 'a" where
  "py_index xs i = (if i < length xs then Inr (xs ! i) else Inl IndexError)"

text \<open>
  \<^verbatim>\<open>np.mean\<close> of a list of numbers. Every call in the modelled code passes a list
  that is not empty (numpy gives nan for an empty one).
\<close>

definition np_mean :: "real list \<Rightarrow> real" where
  "np_mean xs = sum_list xs / real (length xs)"

text \<open>
  Strings: a \<^typ>\<open>char\<close> stands for a code point below 256, which covers the text the
  theorems below are about. In that range \<^verbatim>\<open>str.isspace\<close> and the regular
  expression class \<^verbatim>\<open>\s\<close> hold of the characters below, \<^verbatim>\<open>\d\<close> holds of the ten
  ASCII digits only, and \<^verbatim>\<open>re.IGNORECASE\<close> identifies an ASCII letter of a pattern
  with its other case only.
\<close>

definition isspace :: "char \<Rightarrow> bool" where
  "isspace c = (c \<in> {CHR 0x09, CHR 0x0A, CHR 0x0B, CHR 0x0C, CHR 0x0D,
                      CHR 0x1C, CHR 0x1D, CHR 0x1E, CHR 0x1F, CHR 0x20, CHR 0x85, CHR 0xA0})"

definition isdigit :: "char \<Rightarrow> bool" where
  "isdigit c = (c \<in> set ''0123456789'')"

definition ascii_lower :: "char \<Rightarrow> char" where
  "ascii_lower c =
     (case map_of (zip ''ABCDEFGHIJKLMNOPQRSTUVWXYZ'' ''abcdefghijklmnopqrstuvwxyz'') c of
        Some l \<Rightarrow> l | None \<Rightarrow> c)"

text \<open>\<^verbatim>\<open>s.strip()\<close>.\<close>

definition strip :: "string \<Rightarrow> string" where
  "strip s = rev (dropWhile isspace (rev (dropWhile isspace s)))"

text \<open>\<^verbatim>\<open>s.split()\<close>: the maximal runs of characters that are not whitespace.\<close>

fun split_acc :: "string \<Rightarrow> string \<Rightarrow> string list" where
  "split_acc cur [] = (if cur = [] then [] else [cur])"
| "split_acc cur (c # cs) =
     (if isspace c then (if cur = [] then split_acc [] cs else cur # split_acc [] cs)
      else split_acc (cur @ [c]) cs)"

definition py_split :: "string \<Rightarrow> string list" where
  "py_split s = split_acc [] s"

text \<open>\<^verbatim>\<open>s.split(d)\<close> for a one-character separator.\<close>

fun split_on :: "char \<Rightarrow> string \<Rightarrow> string list" where
  "split_on d [] = [[]]"
| "split_on d (c # cs) =
     (if c = d then [] # split_on d cs
      else (case split_on d cs of [] \<Rightarrow> [[c]] | l # ls \<Rightarrow> (c # l) # ls))"

text \<open>\<^verbatim>\<open>' '.join(xs)\<close>.\<close>

fun join_space :: "string list \<Rightarrow> string" where
  "join_space [] = []"
| "join_space [x] = x"
| "join_space (x # y # ys) = x @ '' '' @ join_space (y # ys)"

text \<open>\<^verbatim>\<open>str(n)\<close> for a number that is not negative, as an f-string formats it.\<close>

fun str_nat :: "nat \<Rightarrow> string" where
  "str_nat n =
     (if n < 10 then [''0123456789'' ! n]
      else str_nat (n div 10) @ [''0123456789'' ! (n mod 10)])"

declare str_nat.simps [simp del]

subsection \<open>Script segmenter: \<^verbatim>\<open>parse_script_file\<close>\<close>

text \<open>
  A scene dictionary (keys scene_number, text, word_count, markers). The scene in
  progress has no \<^verbatim>\<open>word_count\<close> key until it is closed.
\<close>

record scene =
  sc_scene_number :: int
  sc_text :: string
  sc_word_count :: "nat option"
  sc_markers :: "string list"

text \<open>
  The regular expressions of \<^verbatim>\<open>scene_patterns\<close>, searched with
  \<^verbatim>\<open>re.search(pattern, line, re.IGNORECASE)\<close>. \<open>ci_prefix p s\<close> matches the literal
  \<open>p\<close> (given in lower case) at the start of \<open>s\<close>, ignoring case, and returns the rest.
\<close>

fun ci_prefix :: "string \<Rightarrow> string \<Rightarrow> string option" where
  "ci_prefix [] s = Some s"
| "ci_prefix (p # ps) [] = None"
| "ci_prefix (p # ps) (c # cs) = (if ascii_lower c = p then ci_prefix ps cs else None)"

text \<open>
  \<^verbatim>\<open>\s+\<close> followed by one character of the class \<open>P\<close>, where no whitespace is in
  \<open>P\<close>: the run of whitespace is not empty and the character after it is in \<open>P\<close>.
\<close>

definition ws_then :: "(char \<Rightarrow> bool) \<Rightarrow> string \<Rightarrow> bool" where
  "ws_then P r =
     (case r of [] \<Rightarrow> False
      | c # _ \<Rightarrow> isspace c \<and> (case dropWhile isspace r of [] \<Rightarrow> False | d # _ \<Rightarrow> P d))"

text \<open>A literal followed by \<^verbatim>\<open>\s+\<close> and a character of \<open>P\<close>, at the start of \<open>s\<close>.\<close>

definition lit_ws_then :: "string \<Rightarrow> (char \<Rightarrow> bool) \<Rightarrow> string \<Rightarrow> bool" where
  "lit_ws_then p P s = (case ci_prefix p s of None \<Rightarrow> False | Some r \<Rightarrow> ws_then P r)"

definition lit_at :: "string \<Rightarrow> string \<Rightarrow> bool" where
  "lit_at p s = (case ci_prefix p s of None \<Rightarrow> False | Some r \<Rightarrow> True)"

text \<open>\<^verbatim>\<open>re.search\<close>: the pattern matches at some position of the line.\<close>

fun re_search :: "(string \<Rightarrow> bool) \<Rightarrow> string \<Rightarrow> bool" where
  "re_search P [] = P []"
| "re_search P (c # cs) = (P (c # cs) \<or> re_search P cs)"

text \<open>\<^verbatim>\<open>^\d+\.\<close>: digits and a full stop at the very start of the line.\<close>

definition leading_number :: "string \<Rightarrow> bool" where
  "leading_number line =
     (case line of [] \<Rightarrow> False
      | c # _ \<Rightarrow> isdigit c \<and>
          (case dropWhile isdigit line of [] \<Rightarrow> False | d # _ \<Rightarrow> d = CHR ''.''))"

definition is_scene_marker :: "string \<Rightarrow> bool" where
  "is_scene_marker line =
     (re_search (lit_ws_then ''scene'' isdigit) line
      \<or> re_search (\<lambda>s. lit_at ''int.'' s \<or> lit_at ''ext.'' s) line
      \<or> re_search (lit_at ''fade in:'') line
      \<or> re_search (lit_at ''cut to:'') line
      \<or> leading_number line
      \<or> re_search (lit_ws_then ''chapter'' isdigit) line
      \<or> re_search (lit_ws_then ''act'' (\<lambda>c. ascii_lower c \<in> set ''ivx'')) line)"

text \<open>The variables of the loop over the lines.\<close>

record parse_state =
  scenes :: "scene list"
  current_scene :: scene
  next_scene_number :: int  \<comment> \<open>the variable \<^verbatim>\<open>scene_number\<close>\<close>

text \<open>Closing a scene: strip the text and count its words.\<close>

definition close_scene :: "scene \<Rightarrow> scene" where
  "close_scene sc =
     sc\<lparr>sc_text := strip (sc_text sc),
        sc_word_count := Some (length (py_split (strip (sc_text sc))))\<rparr>"

text \<open>One iteration of \<^verbatim>\<open>for i, line in enumerate(lines)\<close>.\<close>

definition parse_line :: "parse_state \<Rightarrow> string \<Rightarrow> parse_state" where
  "parse_line st raw_line =
     (let line = strip raw_line in
      if line = [] then st
      else if is_scene_marker line \<and> strip (sc_text (current_scene st)) \<noteq> []
      then st\<lparr>scenes := scenes st @ [close_scene (current_scene st)],
              current_scene := \<lparr>sc_scene_number = next_scene_number st, sc_text = [],
                                sc_word_count = None, sc_markers = [line]\<rparr>,
              next_scene_number := next_scene_number st + 1\<rparr>
      else if is_scene_marker line
      then st\<lparr>current_scene :=
                (current_scene st)\<lparr>sc_markers := sc_markers (current_scene st) @ [line]\<rparr>\<rparr>
      else st\<lparr>current_scene :=
                (current_scene st)\<lparr>sc_text := sc_text (current_scene st) @ '' '' @ line\<rparr>\<rparr>)"

text \<open>
  The part of \<^verbatim>\<open>parse_script_file\<close> after the file has been read and decoded:
  from the text \<^verbatim>\<open>content\<close> to the list of scenes.
\<close>

definition parse_script_content :: "string \<Rightarrow> scene list" where
  "parse_script_content content =
     (let st = foldl parse_line
                 \<lparr>scenes = [],
                  current_scene = \<lparr>sc_scene_number = 1, sc_text = [],
                                    sc_word_count = None, sc_markers = []\<rparr>,
                  next_scene_number = 1\<rparr>
                 (split_on CHR 0x0A content);
          found = (if strip (sc_text (current_scene st)) \<noteq> []
                   then scenes st @ [close_scene (current_scene st)]
                   else scenes st)
      in if found = []
         then [\<lparr>sc_scene_number = 1, sc_text = strip content,
                 sc_word_count = Some (length (py_split content)), sc_markers = []\<rparr>]
         else found)"

subsection \<open>Transcript segmenter: \<^verbatim>\<open>process_transcript_segments\<close>\<close>

text \<open>A word of the transcript (keys word, start, end and the optional confidence).\<close>

record word =
  w_word :: string
  w_start :: real
  w_end :: real
  w_confidence :: "real option"

text \<open>A base segment of the transcript (keys start, end, text and the optional confidence).\<close>

record base_segment =
  seg_start :: real
  seg_end :: real
  seg_text :: string
  seg_confidence :: "real option"

text \<open>
  \<^verbatim>\<open>transcript_data\<close>: an absent key reads as the empty list
  (\<^verbatim>\<open>transcript_data.get("segments", [])\<close>).
\<close>

record transcript_data =
  segments :: "base_segment list"
  words :: "word list"

text \<open>
  A candidate segment as the transcript segmenter emits it (keys segment_id, start_time,
  end_time, text, confidence, window_type). The matcher reads the confidence with
  \<^verbatim>\<open>.get('confidence', 0.0)\<close>.
\<close>

record segment =
  segment_id :: string
  start_time :: real
  end_time :: real
  segment_text :: string
  seg_conf :: "real option"
  window_type :: string

text \<open>\<^verbatim>\<open>d.get('confidence', 0.0)\<close>.\<close>

definition get_confidence :: "real option \<Rightarrow> real" where
  "get_confidence c = (case c of None \<Rightarrow> 0 | Some v \<Rightarrow> v)"

text \<open>
  One iteration of \<^verbatim>\<open>for word in words\<close> in \<^verbatim>\<open>create_segments_from_words\<close>. The
  state is \<^verbatim>\<open>(segments, current_segment, current_start)\<close>; \<open>last_word\<close> is
  \<^verbatim>\<open>words[-1]\<close>, compared with \<^verbatim>\<open>==\<close>, which on dictionaries is equality of the
  keys and values.
\<close>

definition word_step ::
  "real \<Rightarrow> word \<Rightarrow> base_segment list \<times> word list \<times> real \<Rightarrow> word
     \<Rightarrow> base_segment list \<times> word list \<times> real" where
  "word_step segment_duration last_word st word =
     (case st of (segs, current_segment, current_start) \<Rightarrow>
        (let current_start' = (if current_segment = [] then w_start word else current_start);
             current_segment' = current_segment @ [word]
         in if w_end word - current_start' \<ge> segment_duration \<or> word = last_word
            then (segs @ [\<lparr>seg_start = current_start', seg_end = w_end word,
                            seg_text = join_space (map w_word current_segment'),
                            seg_confidence =
                              Some (np_mean (map (\<lambda>w. get_confidence (w_confidence w))
                                                 current_segment'))\<rparr>],
                  [], current_start')
            else (segs, current_segment', current_start')))"

text \<open>
  \<^verbatim>\<open>create_segments_from_words(words, segment_duration)\<close>. For the empty list the
  loop does not run and \<^verbatim>\<open>words[-1]\<close> is never evaluated.
\<close>

definition create_segments_from_words :: "word list \<Rightarrow> real \<Rightarrow> base_segment list" where
  "create_segments_from_words ws segment_duration =
     fst (foldl (word_step segment_duration (last ws)) ([], [], 0) ws)"

definition window_size :: nat where
  "window_size = 3"

text \<open>The entries the loop emits at index \<open>i\<close>: the single one, then the window if it fits.\<close>

definition window_entries :: "base_segment list \<Rightarrow> nat \<Rightarrow> segment list" where
  "window_entries segs i =
     \<lparr>segment_id = ''single_'' @ str_nat i,
      start_time = seg_start (segs ! i),
      end_time = seg_end (segs ! i),
      segment_text = strip (seg_text (segs ! i)),
      seg_conf = Some (get_confidence (seg_confidence (segs ! i))),
      window_type = ''single''\<rparr>
     # (if i + window_size \<le> length segs
        then [\<lparr>segment_id = ''window_'' @ str_nat i @ ''_'' @ str_nat (i + window_size - 1),
               start_time = seg_start (segs ! i),
               end_time = seg_end (segs ! (i + window_size - 1)),
               segment_text = join_space (map (\<lambda>seg. strip (seg_text seg))
                                              (take window_size (drop i segs))),
               seg_conf = Some (np_mean (map (\<lambda>seg. get_confidence (seg_confidence seg))
                                              (take window_size (drop i segs)))),
               window_type = ''window''\<rparr>]
        else [])"

text \<open>
  \<^verbatim>\<open>process_transcript_segments\<close>. The index \<open>i\<close> ranges over
  \<^verbatim>\<open>range(len(segments))\<close>, so every \<open>segs ! i\<close> above is in range.
\<close>

definition process_transcript_segments :: "transcript_data \<Rightarrow> error + segment list" where
  "process_transcript_segments td =
     (case (if segments td = []
            then (if words td \<noteq> [] then Inr (create_segments_from_words (words td) 10)
                  else Inl NoTranscriptData)
            else Inr (segments td)) of
        Inl e \<Rightarrow> Inl e
      | Inr segs \<Rightarrow> Inr (concat (map (window_entries segs) [0..<length segs])))"

subsection \<open>Quality validator: \<^verbatim>\<open>validate_alignment_quality\<close>\<close>

record quality_factors =
  average_confidence :: real
  high_confidence_ratio :: real
  temporal_consistency :: real

record scene_statistics =
  total_scenes :: nat
  high_confidence :: nat
  medium_confidence :: nat
  low_confidence :: nat
  temporal_conflicts :: nat

record quality_report =
  status :: string
  quality_score :: real
  quality_factors :: quality_factors
  scene_statistics :: scene_statistics
  needs_manual_review :: bool
  recommendations :: "string list"

text \<open>\<^verbatim>\<open>generate_alignment_recommendations\<close>: each test appends its message.\<close>

definition generate_alignment_recommendations ::
  "alignment list \<Rightarrow> quality_factors \<Rightarrow> string list" where
  "generate_alignment_recommendations alignments qf =
     (if average_confidence qf < 6 / 10
      then [''Consider reviewing script content for clarity and detail''] else [])
     @ (if high_confidence_ratio qf < 5 / 10
        then [''Many scenes have low confidence matches - manual review recommended'']
        else [])
     @ (if temporal_consistency qf < 8 / 10
        then [''Temporal order issues detected - check scene sequence''] else [])
     @ (let low_conf_scenes = filter (\<lambda>a. confidence a < 5 / 10) alignments
        in if low_conf_scenes \<noteq> []
           then [str_nat (length low_conf_scenes) @ '' scenes need manual review'']
           else [])"

text \<open>
  \<^verbatim>\<open>validate_alignment_quality\<close> (the task arguments \<^verbatim>\<open>self\<close> and
  \<^verbatim>\<open>job_id\<close> are not read). \<^verbatim>\<open>a.get('temporal_conflict', False)\<close> is true
  exactly for \<open>Some True\<close>. An exception raised in the body is reported and raised
  again, so it is the result.
\<close>

definition validate_alignment_quality :: "alignment list \<Rightarrow> error + quality_report" where
  "validate_alignment_quality alignments =
     (let total = length alignments;
          high_confidence_scenes = length (filter (\<lambda>a. confidence a > 8 / 10) alignments);
          medium_confidence_scenes =
            length (filter (\<lambda>a. 5 / 10 \<le> confidence a \<and> confidence a \<le> 8 / 10) alignments);
          low_confidence_scenes = length (filter (\<lambda>a. confidence a < 5 / 10) alignments);
          confidence_scores = map confidence alignments;
          avg = (if confidence_scores \<noteq> [] then np_mean confidence_scores else 0);
          conflicts = length (filter (\<lambda>a. temporal_conflict a = Some True) alignments)
      in case (if total > 0 then truediv (real high_confidence_scenes) (real total)
               else Inr 0) of
           Inl e \<Rightarrow> Inl e
         | Inr ratio \<Rightarrow>
             (case (if total > 0
                    then (case truediv (real conflicts) (real total) of
                            Inl e \<Rightarrow> Inl e | Inr q \<Rightarrow> Inr (1 - q))
                    else Inr 1) of
                Inl e \<Rightarrow> Inl e
              | Inr consistency \<Rightarrow>
                  (let qf = \<lparr>average_confidence = avg, high_confidence_ratio = ratio,
                             temporal_consistency = consistency\<rparr>;
                       overall_score = average_confidence qf * (5 / 10)
                                       + high_confidence_ratio qf * (3 / 10)
                                       + temporal_consistency qf * (2 / 10)
                   in Inr \<lparr>status = ''success'',
                           quality_score = overall_score,
                           quality_factors = qf,
                           scene_statistics =
                             \<lparr>total_scenes = total,
                              high_confidence = high_confidence_scenes,
                              medium_confidence = medium_confidence_scenes,
                              low_confidence = low_confidence_scenes,
                              temporal_conflicts = conflicts\<rparr>,
                           needs_manual_review =
                             (overall_score < 6 / 10
                              \<or> real low_confidence_scenes > real total * (3 / 10)
                              \<or> real conflicts > real total * (1 / 10)),
                           recommendations =
                             generate_alignment_recommendations alignments qf\<rparr>)))"

subsection \<open>Matcher: \<^verbatim>\<open>perform_semantic_matching\<close>\<close>

text \<open>
  An embedding matrix is a list of rows. \<^verbatim>\<open>cosine_similarity\<close> is the function of
  scikit-learn that the matcher imports, not code of the repository; the definition
  follows the library's documented behaviour. It validates both arguments (a
  two-dimensional array with at least one row and one column, both with the same
  number of columns) and raises ValueError otherwise; it divides every row by its
  Euclidean norm, a zero row being left as it is, and returns the matrix of the dot
  products of the rows of \<open>X\<close> with the rows of \<open>Y\<close>. The definition computes in
  the real numbers. The library computes in floating point, where an entry can leave
  the interval from -1 to 1 by a rounding error (the similarity of the row 1, 1, 1 with
  itself is 1.0000000000000002); no statement below relies on a bound that holds of the
  exact values only: where a bound on the entries is needed, it is a hypothesis on the
  matrix that was computed.
\<close>

definition l2_norm :: "real list \<Rightarrow> real" where
  "l2_norm v = sqrt (sum_list (map (\<lambda>x. x * x) v))"

definition normalize_row :: "real list \<Rightarrow> real list" where
  "normalize_row v = (let n = l2_norm v in if n = 0 then v else map (\<lambda>x. x / n) v)"

definition dot :: "real list \<Rightarrow> real list \<Rightarrow> real" where
  "dot u v = sum_list (map2 (*) u v)"

definition valid_array :: "real list list \<Rightarrow> bool" where
  "valid_array X = (X \<noteq> [] \<and> hd X \<noteq> [] \<and> list_all (\<lambda>x. length x = length (hd X)) X)"

definition cosine_similarity :: "real list list \<Rightarrow> real list list \<Rightarrow> error + real list list" where
  "cosine_similarity X Y =
     (if valid_array X \<and> valid_array Y \<and> length (hd X) = length (hd Y)
      then Inr (map (\<lambda>x. map (\<lambda>y. dot (normalize_row x) (normalize_row y)) Y) X)
      else Inl ValueError)"

text \<open>
  \<^verbatim>\<open>np.argsort(row)\<close> returns the indices of the row in ascending order of the
  values. It is a function of numpy, not code of the repository, and its default kind
  promises no order among equal values. The matcher therefore takes it as the
  parameter \<open>argsort\<close>, and the theorems about the matcher hold for every such function.
  \<open>stable_argsort\<close> is the instance that orders equal values by their position; it is
  used to evaluate examples, whose rows have no two equal values.
\<close>

definition stable_argsort :: "real list \<Rightarrow> nat list" where
  "stable_argsort row = map snd (sort_key fst (zip row [0..<length row]))"

definition compute_length_similarity :: "scene \<Rightarrow> segment \<Rightarrow> error + real" where
  "compute_length_similarity sc seg =
     (let scene_words = real (case sc_word_count sc of
                                Some n \<Rightarrow> n | None \<Rightarrow> length (py_split (sc_text sc)));
          segment_duration = end_time seg - start_time seg;
          estimated_words = (segment_duration / 60) * 150
      in if estimated_words = 0 then Inr 0
         else truediv (min scene_words estimated_words) (max scene_words estimated_words))"

text \<open>The arguments \<^verbatim>\<open>total_scenes\<close> and \<^verbatim>\<open>total_segments\<close> are \<open>n_scenes\<close> and \<open>n_segments\<close> here.\<close>

definition compute_position_similarity :: "nat \<Rightarrow> nat \<Rightarrow> nat \<Rightarrow> nat \<Rightarrow> real" where
  "compute_position_similarity scene_idx segment_idx n_scenes n_segments =
     (let scene_position = real scene_idx / real_of_int (max 1 (int n_scenes - 1));
          segment_position = real segment_idx / real_of_int (max 1 (int n_segments - 1));
          position_diff = \<bar>scene_position - segment_position\<bar>
      in 1 - position_diff)"

text \<open>Running a fallible function over a list: the first exception ends the loop.\<close>

fun map_result :: "('a \<Rightarrow> error + 'b) \<Rightarrow> 'a list \<Rightarrow> error + 'b list" where
  "map_result f [] = Inr []"
| "map_result f (x # xs) =
     (case f x of Inl e \<Rightarrow> Inl e
      | Inr y \<Rightarrow> (case map_result f xs of Inl e \<Rightarrow> Inl e | Inr ys \<Rightarrow> Inr (y # ys)))"

text \<open>An entry of \<^verbatim>\<open>alternative_matches\<close>, for the index \<open>idx\<close> of \<^verbatim>\<open>top_indices[1:3]\<close>.\<close>

definition alternative_match :: "segment list \<Rightarrow> real list \<Rightarrow> nat \<Rightarrow> error + alt_match" where
  "alternative_match segs scene_similarities idx =
     (case py_index segs idx of Inl e \<Rightarrow> Inl e
      | Inr seg \<Rightarrow>
          (case py_index scene_similarities idx of Inl e \<Rightarrow> Inl e
           | Inr sim \<Rightarrow> Inr \<lparr>alt_segment_id = segment_id seg, alt_start_time = start_time seg,
                            alt_end_time = end_time seg, alt_confidence = sim\<rparr>))"

text \<open>The body of \<^verbatim>\<open>for i, scene in enumerate(scenes)\<close>.\<close>

definition match_scene ::
  "(real list \<Rightarrow> nat list) \<Rightarrow> nat \<Rightarrow> segment list \<Rightarrow> real list list \<Rightarrow> nat \<Rightarrow> scene
     \<Rightarrow> error + alignment" where
  "match_scene argsort n_scenes segs similarity_matrix i sc =
     (case py_index similarity_matrix i of Inl e \<Rightarrow> Inl e
      | Inr scene_similarities \<Rightarrow>
     (let top_indices = take 5 (rev (argsort scene_similarities)) in
      case py_index top_indices 0 of Inl e \<Rightarrow> Inl e
      | Inr best_match_idx \<Rightarrow>
     (case py_index segs best_match_idx of Inl e \<Rightarrow> Inl e
      | Inr best_segment \<Rightarrow>
     (case py_index scene_similarities best_match_idx of Inl e \<Rightarrow> Inl e
      | Inr sim \<Rightarrow>
     (case compute_length_similarity sc best_segment of Inl e \<Rightarrow> Inl e
      | Inr len_sim \<Rightarrow>
     (let factors = \<lparr>semantic_similarity = sim,
                      length_similarity = len_sim,
                      position_similarity =
                        compute_position_similarity i best_match_idx n_scenes (length segs),
                      transcript_confidence = get_confidence (seg_conf best_segment)\<rparr>;
          final_confidence = semantic_similarity factors * (5 / 10)
                             + length_similarity factors * (2 / 10)
                             + position_similarity factors * (2 / 10)
                             + transcript_confidence factors * (1 / 10)
      in case map_result (alternative_match segs scene_similarities)
                (take 2 (drop 1 top_indices)) of
           Inl e \<Rightarrow> Inl e
         | Inr alts \<Rightarrow>
             Inr \<lparr>scene_number = sc_scene_number sc,
                  scene_text = (if length (sc_text sc) > 200
                                then take 200 (sc_text sc) @ ''...'' else sc_text sc),
                  matched_segment_id = segment_id best_segment,
                  video_start_time = start_time best_segment,
                  video_end_time = end_time best_segment,
                  confidence = final_confidence,
                  confidence_factors = factors,
                  alternative_matches = alts,
                  temporal_conflict = None,
                  manual_review_required = None,
                  flagged_reason = None\<rparr>))))))"

definition perform_semantic_matching ::
  "(real list \<Rightarrow> nat list) \<Rightarrow> scene list \<Rightarrow> segment list \<Rightarrow> real list list \<Rightarrow> real list list
     \<Rightarrow> error + alignment list" where
  "perform_semantic_matching argsort scs segs scene_embeddings segment_embeddings =
     (case cosine_similarity scene_embeddings segment_embeddings of
        Inl e \<Rightarrow> Inl e
      | Inr similarity_matrix \<Rightarrow>
          map_result (\<lambda>(i, sc). match_scene argsort (length scs) segs similarity_matrix i sc)
            (zip [0..<length scs] scs))"

subsection \<open>Notions used in the statements and proofs\<close>

text \<open>The fields of an alignment that the refiner never writes.\<close>

definition frame :: "alignment \<Rightarrow> int \<times> string \<times> confidence_factors \<times> alt_match list" where
  "frame a = (scene_number a, scene_text a, confidence_factors a, alternative_matches a)"

text \<open>The relation that the refiner establishes between an alignment and the next one.\<close>

definition ordered_or_flagged :: "alignment \<Rightarrow> alignment \<Rightarrow> bool" where
  "ordered_or_flagged p c =
     (temporal_conflict c = Some True \<or> video_end_time p \<le> video_start_time c)"

text \<open>A relation holds between every element of \<open>p # ys\<close> and the next.\<close>

fun chain :: "(alignment \<Rightarrow> alignment \<Rightarrow> bool) \<Rightarrow> alignment \<Rightarrow> alignment list \<Rightarrow> bool" where
  "chain R p [] = True"
| "chain R p (c # rest) = (R p c \<and> chain R c rest)"

text \<open>
  Example alignments: two scenes matched to the same window of the video, the second
  without an alternative; and a second scene that overlaps the first but has an
  alternative match after it.
\<close>

definition example_factors :: confidence_factors where
  "example_factors = \<lparr>semantic_similarity = 9 / 10, length_similarity = 9 / 10,
                        position_similarity = 1, transcript_confidence = 7 / 10\<rparr>"

definition example_first :: alignment where
  "example_first =
     \<lparr>scene_number = 1, scene_text = ''She cooks dinner.'',
      matched_segment_id = ''window_0_2'', video_start_time = 0, video_end_time = 30,
      confidence = 9 / 10, confidence_factors = example_factors,
      alternative_matches = [], temporal_conflict = None,
      manual_review_required = None, flagged_reason = None\<rparr>"

definition example_second :: alignment where
  "example_second =
     \<lparr>scene_number = 2, scene_text = ''He walks away.'',
      matched_segment_id = ''window_0_2'', video_start_time = 0, video_end_time = 30,
      confidence = 9 / 10, confidence_factors = example_factors,
      alternative_matches = [], temporal_conflict = None,
      manual_review_required = None, flagged_reason = None\<rparr>"

definition example_repairable :: alignment where
  "example_repairable =
     \<lparr>scene_number = 2, scene_text = ''He walks away.'',
      matched_segment_id = ''window_1_3'', video_start_time = 10, video_end_time = 40,
      confidence = 9 / 10, confidence_factors = example_factors,
      alternative_matches =
        [\<lparr>alt_segment_id = ''single_3'', alt_start_time = 30, alt_end_time = 40,
          alt_confidence = 7 / 10\<rparr>],
      temporal_conflict = None, manual_review_required = None, flagged_reason = None\<rparr>"

text \<open>
  The invariant of the loop over the lines: the scenes found so far and the scene in
  progress are numbered 1, 1, 2, 3, ... and the counter is one more than the number of
  closed scenes.
\<close>

definition numbered :: "parse_state \<Rightarrow> bool" where
  "numbered st =
     (map sc_scene_number (scenes st @ [current_scene st])
        = 1 # map int [1..<Suc (length (scenes st))]
      \<and> next_scene_number st = int (length (scenes st)) + 1)"

text \<open>
  Example inputs: the script of the specification's first scenario, a transcript word of
  zero duration that occurs twice, and a transcript of four segments.
\<close>

definition example_script :: string where
  "example_script = ''INT. KITCHEN'' @ [CHR 0x0A] @ ''She cooks dinner.'' @ [CHR 0x0A]
                    @ ''EXT. STREET'' @ [CHR 0x0A] @ ''He walks away.''"

definition example_word :: word where
  "example_word = \<lparr>w_word = ''no'', w_start = 2, w_end = 2, w_confidence = Some (9 / 10)\<rparr>"

definition example_segment :: "real \<Rightarrow> real \<Rightarrow> string \<Rightarrow> base_segment" where
  "example_segment s e t = \<lparr>seg_start = s, seg_end = e, seg_text = t, seg_confidence = Some (9 / 10)\<rparr>"

definition example_transcript :: transcript_data where
  "example_transcript =
     \<lparr>segments = [example_segment 0 10 ''She cooks dinner.'', example_segment 10 20 ''It is late.'',
                  example_segment 20 30 ''He walks away.'', example_segment 30 40 ''The end.''],
      words = []\<rparr>"



text \<open>
  Example inputs of the matcher. First a scene of two words and a candidate segment of
  four seconds. Then three scenes and three consecutive segments of ten seconds whose
  embeddings make the scenes match the segments in reverse order, so that the refiner
  meets two overlaps: the second scene has no alternative after the first and keeps the
  penalty, the third is moved to an alternative.
\<close>

definition example_scene :: scene where
  "example_scene = \<lparr>sc_scene_number = 1, sc_text = ''Hello there'', sc_word_count = Some 2,
                      sc_markers = []\<rparr>"

definition example_candidate :: segment where
  "example_candidate = \<lparr>segment_id = ''single_0'', start_time = 0, end_time = 4,
                          segment_text = ''Goodbye'', seg_conf = Some (9 / 10),
                          window_type = ''single''\<rparr>"







section \<open>Properties\<close>

subsection \<open>Temporal refiner\<close>

lemmas refiner_eval =
  refine_alignment_temporal_def refine_pair_def flag_low_confidence_def
  ALIGNMENT_CONFIDENCE_THRESHOLD_def overlap_penalty_def Let_def
  example_first_def example_second_def example_repairable_def


lemma flag_fields [simp]:
  "scene_number (flag_low_confidence a) = scene_number a"
  "scene_text (flag_low_confidence a) = scene_text a"
  "confidence_factors (flag_low_confidence a) = confidence_factors a"
  "alternative_matches (flag_low_confidence a) = alternative_matches a"
  "video_start_time (flag_low_confidence a) = video_start_time a"
  "video_end_time (flag_low_confidence a) = video_end_time a"
  "confidence (flag_low_confidence a) = confidence a"
  "temporal_conflict (flag_low_confidence a) = temporal_conflict a"
  "matched_segment_id (flag_low_confidence a) = matched_segment_id a"
  by (simp_all add: flag_low_confidence_def)

lemma flag_idem [simp]: "flag_low_confidence (flag_low_confidence a) = flag_low_confidence a"
  by (simp add: flag_low_confidence_def)

lemma use_alternative_frame [simp]:
  "scene_number (use_alternative p c alts) = scene_number c"
  "scene_text (use_alternative p c alts) = scene_text c"
  "confidence_factors (use_alternative p c alts) = confidence_factors c"
  "alternative_matches (use_alternative p c alts) = alternative_matches c"
  by (induction alts) simp_all

lemma refine_pair_frame [simp]:
  "scene_number (refine_pair p c) = scene_number c"
  "scene_text (refine_pair p c) = scene_text c"
  "confidence_factors (refine_pair p c) = confidence_factors c"
  "alternative_matches (refine_pair p c) = alternative_matches c"
  by (simp_all add: refine_pair_def Let_def)

lemma temporal_walk_frame: "map frame (temporal_walk p xs) = map frame xs"
  by (induction xs arbitrary: p) (simp_all add: Let_def frame_def)

lemma apply_temporal_constraints_frame:
  "map frame (apply_temporal_constraints xs) = map frame xs"
  by (cases xs) (simp_all add: temporal_walk_frame)

lemma refine_frame: "map frame (refine_alignment_temporal xs) = map frame (sort_key scene_number xs)"
proof -
  have "frame \<circ> flag_low_confidence = frame"
    by (rule ext) (simp add: frame_def)
  then show ?thesis
    by (simp add: refine_alignment_temporal_def apply_temporal_constraints_frame)
qed

lemma refine_scene_numbers:
  "map scene_number (refine_alignment_temporal xs) = map scene_number (sort_key scene_number xs)"
proof -
  have "map scene_number ys = map fst (map frame ys)" for ys
    by (simp add: frame_def)
  then show ?thesis by (simp only: refine_frame)
qed

text \<open>
  Claim C10. The refiner returns as many alignments as it is given, with the same
  multiset of scene numbers, and the alignment at each position of the output has the
  scene number, scene text, confidence factors and alternative matches of the alignment
  at that position of the input sorted by scene number: these four fields are never
  written.
\<close>

theorem refiner_frame:
  "length (refine_alignment_temporal xs) = length xs
   \<and> mset (map scene_number (refine_alignment_temporal xs)) = mset (map scene_number xs)
   \<and> map (\<lambda>a. (scene_number a, scene_text a, confidence_factors a, alternative_matches a))
        (refine_alignment_temporal xs)
     = map (\<lambda>a. (scene_number a, scene_text a, confidence_factors a, alternative_matches a))
        (sort_key scene_number xs)"
proof (intro conjI)
  have "length (map frame (refine_alignment_temporal xs)) = length (map frame (sort_key scene_number xs))"
    by (simp only: refine_frame)
  then show "length (refine_alignment_temporal xs) = length xs" by simp
  have "mset (map scene_number (refine_alignment_temporal xs)) = mset (map scene_number (sort_key scene_number xs))"
    by (simp only: refine_scene_numbers)
  then show "mset (map scene_number (refine_alignment_temporal xs)) = mset (map scene_number xs)"
    by simp
  show "map (\<lambda>a. (scene_number a, scene_text a, confidence_factors a, alternative_matches a))
        (refine_alignment_temporal xs)
     = map (\<lambda>a. (scene_number a, scene_text a, confidence_factors a, alternative_matches a))
        (sort_key scene_number xs)"
    using refine_frame [of xs] by (simp add: frame_def [abs_def])
qed


lemma use_alternative_cases:
  "use_alternative p c alts = c
   \<or> (temporal_conflict (use_alternative p c alts) = Some False
      \<and> video_end_time p \<le> video_start_time (use_alternative p c alts))"
  by (induction alts) simp_all

lemma refine_pair_ordered_or_flagged: "ordered_or_flagged p (refine_pair p c)"
proof (cases "video_start_time c < video_end_time p")
  case True
  let ?pen = "c\<lparr>confidence := confidence c * (1 - overlap_penalty), temporal_conflict := Some True\<rparr>"
  from use_alternative_cases [of p ?pen "alternative_matches ?pen"] True show ?thesis
    by (auto simp add: refine_pair_def Let_def ordered_or_flagged_def)
next
  case False
  then show ?thesis by (simp add: refine_pair_def ordered_or_flagged_def)
qed

lemma temporal_walk_chain: "chain ordered_or_flagged p (temporal_walk p xs)"
  by (induction xs arbitrary: p) (simp_all add: Let_def refine_pair_ordered_or_flagged)

lemma chain_map_flag:
  "chain ordered_or_flagged p ys
   \<Longrightarrow> chain ordered_or_flagged (flag_low_confidence p) (map flag_low_confidence ys)"
  by (induction ys arbitrary: p) (simp_all add: ordered_or_flagged_def)

lemma chain_nth:
  "chain R p ys \<Longrightarrow> 1 \<le> i \<Longrightarrow> i < length (p # ys) \<Longrightarrow> R ((p # ys) ! (i - 1)) ((p # ys) ! i)"
proof (induction ys arbitrary: p i)
  case Nil
  then show ?case by simp
next
  case (Cons c rest)
  show ?case
  proof (cases "i = 1")
    case True
    with Cons.prems show ?thesis by simp
  next
    case False
    with Cons.prems have "1 \<le> i - 1" "i - 1 < length (c # rest)" by simp_all
    with Cons.IH [of c "i - 1"] Cons.prems(1)
    have "R ((c # rest) ! (i - 1 - 1)) ((c # rest) ! (i - 1))" by simp
    with False Cons.prems(2) show ?thesis
      by (cases i) (simp_all add: nth_Cons')
  qed
qed

lemma nth_chain:
  "(\<And>i. 1 \<le> i \<Longrightarrow> i < length (p # ys) \<Longrightarrow> R ((p # ys) ! (i - 1)) ((p # ys) ! i))
   \<Longrightarrow> chain R p ys"
proof (induction ys arbitrary: p)
  case Nil
  then show ?case by simp
next
  case (Cons c rest)
  have "R p c" using Cons.prems [of 1] by simp
  moreover have "chain R c rest"
  proof (rule Cons.IH)
    fix i assume "1 \<le> i" "i < length (c # rest)"
    then show "R ((c # rest) ! (i - 1)) ((c # rest) ! i)"
      using Cons.prems [of "Suc i"] by simp
  qed
  ultimately show ?case by simp
qed

text \<open>
  Claim C9. In the output of the refiner, every alignment after the first either has
  its temporal conflict flag set or starts no earlier than the final end time of the
  alignment before it.
\<close>

theorem refiner_ordered_or_flagged:
  "\<forall>i. 1 \<le> i \<and> i < length (refine_alignment_temporal xs) \<longrightarrow>
     temporal_conflict (refine_alignment_temporal xs ! i) = Some True
     \<or> video_end_time (refine_alignment_temporal xs ! (i - 1))
        \<le> video_start_time (refine_alignment_temporal xs ! i)"
proof (cases "sort_key scene_number xs")
  case Nil
  then show ?thesis by (simp add: refine_alignment_temporal_def)
next
  case (Cons first rest)
  let ?p = "flag_low_confidence first"
  let ?ys = "map flag_low_confidence (temporal_walk first rest)"
  have eq: "refine_alignment_temporal xs = ?p # ?ys"
    by (simp add: refine_alignment_temporal_def Cons)
  have "chain ordered_or_flagged ?p ?ys"
    by (rule chain_map_flag) (rule temporal_walk_chain)
  then have "ordered_or_flagged ((?p # ?ys) ! (i - 1)) ((?p # ?ys) ! i)"
    if "1 \<le> i" "i < length (?p # ?ys)" for i
    using that by (rule chain_nth)
  then show ?thesis
    unfolding eq ordered_or_flagged_def by blast
qed

lemma flag_low_confidence_eq:
  "flag_low_confidence a
   = a\<lparr>manual_review_required := Some (confidence a < ALIGNMENT_CONFIDENCE_THRESHOLD),
        flagged_reason := (if confidence a < ALIGNMENT_CONFIDENCE_THRESHOLD
                           then Some ''low_confidence_alignment'' else flagged_reason a)\<rparr>"
  by (simp add: flag_low_confidence_def)

text \<open>
  Claim C8. The last step of the refiner takes each alignment as the repair pass left
  it and changes only the two review fields: \<open>manual_review_required\<close> becomes true,
  with \<open>flagged_reason\<close> "low_confidence_alignment", exactly when the post-repair
  confidence is strictly below the threshold 0.7, and false for every confidence of 0.7
  or more, so also at exactly 0.7 (a reason already present is then left in place).
\<close>

theorem refiner_flags_low_confidence:
  "refine_alignment_temporal xs
     = map (\<lambda>a. a\<lparr>manual_review_required := Some (confidence a < ALIGNMENT_CONFIDENCE_THRESHOLD),
                   flagged_reason := (if confidence a < ALIGNMENT_CONFIDENCE_THRESHOLD
                                      then Some ''low_confidence_alignment''
                                      else flagged_reason a)\<rparr>)
         (apply_temporal_constraints (sort_key scene_number xs))
   \<and> ALIGNMENT_CONFIDENCE_THRESHOLD = 7 / 10
   \<and> (\<forall>a \<in> set (refine_alignment_temporal xs).
         ((manual_review_required a = Some True
           \<and> flagged_reason a = Some ''low_confidence_alignment'')
          \<longleftrightarrow> confidence a < 7 / 10)
         \<and> (manual_review_required a = Some False \<longleftrightarrow> 7 / 10 \<le> confidence a))"
proof (intro conjI ballI)
  show "refine_alignment_temporal xs
     = map (\<lambda>a. a\<lparr>manual_review_required := Some (confidence a < ALIGNMENT_CONFIDENCE_THRESHOLD),
                   flagged_reason := (if confidence a < ALIGNMENT_CONFIDENCE_THRESHOLD
                                      then Some ''low_confidence_alignment''
                                      else flagged_reason a)\<rparr>)
         (apply_temporal_constraints (sort_key scene_number xs))"
    unfolding refine_alignment_temporal_def flag_low_confidence_eq [abs_def] by (rule refl)
  show "ALIGNMENT_CONFIDENCE_THRESHOLD = 7 / 10"
    by (rule ALIGNMENT_CONFIDENCE_THRESHOLD_def)
next
  fix a assume "a \<in> set (refine_alignment_temporal xs)"
  then obtain b where a: "a = flag_low_confidence b"
    by (auto simp add: refine_alignment_temporal_def)
  show "(manual_review_required a = Some True
           \<and> flagged_reason a = Some ''low_confidence_alignment'')
          \<longleftrightarrow> confidence a < 7 / 10"
    unfolding a by (simp add: flag_low_confidence_def ALIGNMENT_CONFIDENCE_THRESHOLD_def)
  show "manual_review_required a = Some False \<longleftrightarrow> 7 / 10 \<le> confidence a"
    unfolding a by (auto simp add: flag_low_confidence_def ALIGNMENT_CONFIDENCE_THRESHOLD_def)
qed

lemma refine_pair_id: "video_end_time p \<le> video_start_time c \<Longrightarrow> refine_pair p c = c"
  by (simp add: refine_pair_def)

lemma temporal_walk_id:
  "chain (\<lambda>p c. video_end_time p \<le> video_start_time c) p ys \<Longrightarrow> temporal_walk p ys = ys"
  by (induction ys arbitrary: p) (simp_all add: refine_pair_id)

lemma apply_temporal_constraints_id:
  assumes "\<And>i. 1 \<le> i \<Longrightarrow> i < length ys \<Longrightarrow> video_end_time (ys ! (i - 1)) \<le> video_start_time (ys ! i)"
  shows "apply_temporal_constraints ys = ys"
proof (cases ys)
  case Nil
  then show ?thesis by simp
next
  case (Cons p rest)
  have "chain (\<lambda>p c. video_end_time p \<le> video_start_time c) p rest"
    by (rule nth_chain) (use assms Cons in simp)
  then show ?thesis by (simp add: Cons temporal_walk_id)
qed

lemma refine_sorted: "sorted (map scene_number (refine_alignment_temporal xs))"
  by (simp only: refine_scene_numbers sorted_sort_key)

text \<open>
  Claim C3, as amended. When the output of the refiner has no consecutive pair that
  still overlaps (every alignment after the first starts no earlier than the end of the
  one before it), refining that output again changes nothing.
\<close>

theorem refiner_idempotent_without_overlap:
  assumes "\<forall>i. 1 \<le> i \<and> i < length (refine_alignment_temporal xs) \<longrightarrow>
             video_end_time (refine_alignment_temporal xs ! (i - 1))
             \<le> video_start_time (refine_alignment_temporal xs ! i)"
  shows "refine_alignment_temporal (refine_alignment_temporal xs) = refine_alignment_temporal xs"
proof -
  let ?ys = "refine_alignment_temporal xs"
  have "sort_key scene_number ?ys = ?ys"
    by (rule sort_key_id_if_sorted) (rule refine_sorted)
  moreover have "apply_temporal_constraints ?ys = ?ys"
    by (rule apply_temporal_constraints_id) (use assms in blast)
  moreover have "map flag_low_confidence ?ys = ?ys"
    by (simp add: refine_alignment_temporal_def)
  ultimately show ?thesis
    by (simp add: refine_alignment_temporal_def [of ?ys])
qed

lemma refine_conflict_example:
  "map confidence (refine_alignment_temporal [example_first, example_second]) = [9 / 10, 63 / 100]"
  by (simp add: refiner_eval)

lemma refine_conflict_example_twice:
  "map confidence
     (refine_alignment_temporal (refine_alignment_temporal [example_first, example_second]))
   = [9 / 10, 441 / 1000]"
  by (simp add: refiner_eval)

text \<open>
  Claim C3 as stated fails: a second scene that overlaps the first and has no
  alternative is penalised by the first pass (0.9 becomes 0.63) and again by the second
  (0.63 becomes 0.441).
\<close>

theorem refiner_not_idempotent:
  "refine_alignment_temporal (refine_alignment_temporal [example_first, example_second])
   \<noteq> refine_alignment_temporal [example_first, example_second]"
proof
  assume "refine_alignment_temporal (refine_alignment_temporal [example_first, example_second])
          = refine_alignment_temporal [example_first, example_second]"
  then have "map confidence
               (refine_alignment_temporal (refine_alignment_temporal [example_first, example_second]))
             = map confidence (refine_alignment_temporal [example_first, example_second])"
    by (rule arg_cong)
  then show False
    by (simp only: refine_conflict_example refine_conflict_example_twice) simp
qed

lemma refine_repair_example:
  "length (refine_alignment_temporal [example_first, example_repairable]) = 2
   \<and> video_end_time (refine_alignment_temporal [example_first, example_repairable] ! 0) = 30
   \<and> video_start_time (refine_alignment_temporal [example_first, example_repairable] ! 1) = 30
   \<and> confidence (refine_alignment_temporal [example_first, example_repairable] ! 1) = 7 / 10"
  by (simp add: refiner_eval)

theorem refiner_idempotent_without_overlap_witness:
  "video_end_time (refine_alignment_temporal [example_first, example_repairable] ! 0)
     \<le> video_start_time (refine_alignment_temporal [example_first, example_repairable] ! 1)
   \<and> refine_alignment_temporal (refine_alignment_temporal [example_first, example_repairable])
       = refine_alignment_temporal [example_first, example_repairable]"
proof -
  let ?ys = "refine_alignment_temporal [example_first, example_repairable]"
  have first: "video_end_time (?ys ! 0) \<le> video_start_time (?ys ! 1)"
    by (simp only: refine_repair_example)
  have "\<forall>i. 1 \<le> i \<and> i < length ?ys \<longrightarrow>
          video_end_time (?ys ! (i - 1)) \<le> video_start_time (?ys ! i)"
  proof (intro allI impI)
    fix i assume "1 \<le> i \<and> i < length ?ys"
    then have "i = 1" by (simp add: refine_repair_example)
    with first show "video_end_time (?ys ! (i - 1)) \<le> video_start_time (?ys ! i)" by simp
  qed
  then have "refine_alignment_temporal ?ys = ?ys"
    by (rule refiner_idempotent_without_overlap)
  with first show ?thesis by simp
qed

theorem refiner_ordered_or_flagged_witness:
  "1 \<le> (1::nat) \<and> 1 < length (refine_alignment_temporal [example_first, example_second])
   \<and> temporal_conflict (refine_alignment_temporal [example_first, example_second] ! 1) = Some True
   \<and> video_end_time (refine_alignment_temporal [example_first, example_repairable] ! (1 - 1))
       \<le> video_start_time (refine_alignment_temporal [example_first, example_repairable] ! 1)"
  using refiner_ordered_or_flagged [of "[example_first, example_second]"]
    refiner_ordered_or_flagged [of "[example_first, example_repairable]"]
  by (simp add: refiner_eval)

lemma refine_conflict_example_second:
  "length (refine_alignment_temporal [example_first, example_second]) = 2
   \<and> confidence (refine_alignment_temporal [example_first, example_second] ! 1) = 63 / 100"
  by (simp add: refiner_eval)

theorem refiner_flags_low_confidence_witness:
  "refine_alignment_temporal [example_first, example_repairable] ! 1
     \<in> set (refine_alignment_temporal [example_first, example_repairable])
   \<and> confidence (refine_alignment_temporal [example_first, example_repairable] ! 1) = 7 / 10
   \<and> manual_review_required (refine_alignment_temporal [example_first, example_repairable] ! 1)
       = Some False
   \<and> refine_alignment_temporal [example_first, example_second] ! 1
       \<in> set (refine_alignment_temporal [example_first, example_second])
   \<and> confidence (refine_alignment_temporal [example_first, example_second] ! 1) = 63 / 100
   \<and> manual_review_required (refine_alignment_temporal [example_first, example_second] ! 1)
       = Some True
   \<and> flagged_reason (refine_alignment_temporal [example_first, example_second] ! 1)
       = Some ''low_confidence_alignment''"
proof -
  let ?ys = "refine_alignment_temporal [example_first, example_repairable]"
  let ?zs = "refine_alignment_temporal [example_first, example_second]"
  have mem1: "?ys ! 1 \<in> set ?ys"
    by (rule nth_mem) (simp add: refine_repair_example)
  have conf1: "confidence (?ys ! 1) = 7 / 10"
    by (simp only: refine_repair_example)
  have mem2: "?zs ! 1 \<in> set ?zs"
    by (rule nth_mem) (simp add: refine_conflict_example_second)
  have conf2: "confidence (?zs ! 1) = 63 / 100"
    by (simp only: refine_conflict_example_second)
  from refiner_flags_low_confidence [of "[example_first, example_repairable]"] mem1
  have "manual_review_required (?ys ! 1) = Some False \<longleftrightarrow> 7 / 10 \<le> confidence (?ys ! 1)"
    by blast
  with conf1 have r1: "manual_review_required (?ys ! 1) = Some False" by simp
  from refiner_flags_low_confidence [of "[example_first, example_second]"] mem2
  have "(manual_review_required (?zs ! 1) = Some True
         \<and> flagged_reason (?zs ! 1) = Some ''low_confidence_alignment'')
        \<longleftrightarrow> confidence (?zs ! 1) < 7 / 10"
    by blast
  with conf2 have r2: "manual_review_required (?zs ! 1) = Some True"
    and r3: "flagged_reason (?zs ! 1) = Some ''low_confidence_alignment''" by simp_all
  from mem1 conf1 r1 mem2 conf2 r2 r3 show ?thesis by (intro conjI)
qed

subsection \<open>Script segmenter\<close>

text \<open>
  The scene numbers of every result: the first scene has number 1 and the scene at
  position \<open>k > 1\<close> has number \<open>k - 1\<close>.
\<close>

lemma close_scene_number [simp]: "sc_scene_number (close_scene sc) = sc_scene_number sc"
  by (simp add: close_scene_def)

lemma numbered_parse_line: "numbered st \<Longrightarrow> numbered (parse_line st l)"
  by (simp add: numbered_def parse_line_def Let_def)

lemma numbered_foldl: "numbered st \<Longrightarrow> numbered (foldl parse_line st ls)"
  by (induction ls arbitrary: st) (simp_all add: numbered_parse_line)

lemma numbered_initial:
  "numbered \<lparr>scenes = [], current_scene = \<lparr>sc_scene_number = 1, sc_text = [],
                sc_word_count = None, sc_markers = []\<rparr>, next_scene_number = 1\<rparr>"
  by (simp add: numbered_def)

lemma numbered_scenes:
  assumes "numbered st"
  shows "map sc_scene_number (scenes st) = take (length (scenes st)) (1 # map int [1..<Suc (length (scenes st))])"
proof -
  from assms have "map sc_scene_number (scenes st) @ [sc_scene_number (current_scene st)]
                   = 1 # map int [1..<Suc (length (scenes st))]"
    by (simp add: numbered_def)
  then have "take (length (scenes st)) (map sc_scene_number (scenes st) @ [sc_scene_number (current_scene st)])
             = take (length (scenes st)) (1 # map int [1..<Suc (length (scenes st))])"
    by (rule arg_cong)
  then show ?thesis by simp
qed

lemma take_numbers: "0 < n \<Longrightarrow> take n (1 # map int [1..<Suc n]) = 1 # map int [1..<n]"
  by (cases n) (simp_all add: take_map)

lemma scene_numbers_general:
  "map sc_scene_number (parse_script_content content)
   = 1 # map int [1..<length (parse_script_content content)]"
proof -
  define st where "st = foldl parse_line
                 \<lparr>scenes = [],
                  current_scene = \<lparr>sc_scene_number = 1, sc_text = [],
                                    sc_word_count = None, sc_markers = []\<rparr>,
                  next_scene_number = 1\<rparr>
                 (split_on CHR 0x0A content)"
  have n: "numbered st" unfolding st_def by (rule numbered_foldl) (rule numbered_initial)
  define found where "found = (if strip (sc_text (current_scene st)) \<noteq> []
                   then scenes st @ [close_scene (current_scene st)]
                   else scenes st)"
  have res: "parse_script_content content =
      (if found = []
         then [\<lparr>sc_scene_number = 1, sc_text = strip content,
                 sc_word_count = Some (length (py_split content)), sc_markers = []\<rparr>]
         else found)"
    unfolding parse_script_content_def Let_def found_def st_def by (rule refl)
  have f: "found \<noteq> [] \<Longrightarrow> map sc_scene_number found = 1 # map int [1..<length found]"
  proof (cases "strip (sc_text (current_scene st)) \<noteq> []")
    case True
    then have "found = scenes st @ [close_scene (current_scene st)]" by (simp add: found_def)
    with n show ?thesis by (simp add: numbered_def)
  next
    case False
    assume "found \<noteq> []"
    with False have fs: "found = scenes st" and pos: "0 < length (scenes st)"
      by (simp_all add: found_def)
    from numbered_scenes [OF n] take_numbers [OF pos] show ?thesis
      unfolding fs by simp
  qed
  show ?thesis
  proof (cases "found = []")
    case True
    then show ?thesis by (simp add: res)
  next
    case False
    with f show ?thesis by (simp add: res)
  qed
qed

lemma second_scene_is_numbered_one:
  assumes "2 \<le> length (parse_script_content content)"
  shows "sc_scene_number (parse_script_content content ! 0) = 1
         \<and> sc_scene_number (parse_script_content content ! 1) = 1"
proof -
  let ?r = "parse_script_content content"
  from assms have len: "0 < length ?r" "1 < length ?r" by linarith+
  have "map sc_scene_number ?r ! 0 = 1"
    by (simp add: scene_numbers_general [of content])
  moreover have "map sc_scene_number ?r ! 1 = 1"
    using len(2) by (simp add: scene_numbers_general [of content] nth_Cons' del: upt_Suc)
  ultimately show ?thesis
    unfolding nth_map [OF len(1)] nth_map [OF len(2)] by (rule conjI)
qed

text \<open>
  Claim C1. The claim says that the k-th scene has scene number k. The code gives the
  first scene the number 1 and then numbers the scene opened at the first boundary 1
  again, because \<^verbatim>\<open>scene_number\<close> is incremented only after it has been used for the
  new scene. On the script "INT. KITCHEN / She cooks dinner. / EXT. STREET / He walks
  away." the two scenes are both numbered 1, as are the first two scenes of every
  result with two or more scenes.
\<close>

theorem scene_numbers_duplicate:
  "parse_script_content example_script =
     [\<lparr>sc_scene_number = 1, sc_text = ''She cooks dinner.'', sc_word_count = Some 3,
       sc_markers = [''INT. KITCHEN'']\<rparr>,
      \<lparr>sc_scene_number = 1, sc_text = ''He walks away.'', sc_word_count = Some 3,
       sc_markers = [''EXT. STREET'']\<rparr>]"
  unfolding example_script_def by code_simp

subsection \<open>Transcript segmenter\<close>

text \<open>
  Claim C6. The claim says that a group of words is closed exactly when its duration
  reaches 10 seconds or the word list ends. The code tests the end of the list with
  \<^verbatim>\<open>word == words[-1]\<close>, an equality of dictionaries: a word equal to the last one
  closes its group wherever it stands. Two equal words of zero duration give two
  segments "no" and "no" and not the one segment "no no".
\<close>

theorem words_equal_to_last_close_group:
  "create_segments_from_words [example_word, example_word] 10 =
     [\<lparr>seg_start = 2, seg_end = 2, seg_text = ''no'', seg_confidence = Some (9 / 10)\<rparr>,
      \<lparr>seg_start = 2, seg_end = 2, seg_text = ''no'', seg_confidence = Some (9 / 10)\<rparr>]"
  by (simp add: create_segments_from_words_def word_step_def example_word_def np_mean_def
      get_confidence_def)

lemma length_filter_concat_map:
  "length (filter P (concat (map f xs))) = sum_list (map (\<lambda>x. length (filter P (f x))) xs)"
  by (induction xs) simp_all

lemma single_entries_at:
  "length (filter (\<lambda>s. window_type s = ''single'') (window_entries segs i)) = 1"
  by (simp add: window_entries_def)

lemma window_entries_at:
  "length (filter (\<lambda>s. window_type s = ''window'') (window_entries segs i))
   = (if i + window_size \<le> length segs then 1 else 0)"
  by (simp add: window_entries_def)

lemma count_fitting_windows:
  "sum_list (map (\<lambda>i. if i + w \<le> n then 1 else 0) [0..<m]) = min m (Suc n - w)"
  by (induction m) auto

lemma single_count:
  "length (filter (\<lambda>s. window_type s = ''single'')
             (concat (map (window_entries segs) [0..<length segs]))) = length segs"
  by (simp add: length_filter_concat_map single_entries_at sum_list_triv)

lemma window_count:
  "length (filter (\<lambda>s. window_type s = ''window'')
             (concat (map (window_entries segs) [0..<length segs])))
   = Suc (length segs) - window_size"
  by (simp add: length_filter_concat_map window_entries_at count_fitting_windows window_size_def)

text \<open>
  Claim C7. For a transcript whose \<^verbatim>\<open>segments\<close> list is not empty, the transcript
  segmenter succeeds and emits exactly \<open>len(segments)\<close> entries of type "single" and
  exactly \<open>max(0, len(segments) - window_size + 1)\<close> entries of type "window", where
  \<open>window_size\<close> is 3.
\<close>

theorem transcript_segmenter_counts:
  assumes "segments td \<noteq> []"
  shows "\<exists>out. process_transcript_segments td = Inr out
           \<and> length (filter (\<lambda>s. window_type s = ''single'') out) = length (segments td)
           \<and> int (length (filter (\<lambda>s. window_type s = ''window'') out))
               = max 0 (int (length (segments td)) - int window_size + 1)
           \<and> window_size = 3"
proof -
  from assms have "process_transcript_segments td
                   = Inr (concat (map (window_entries (segments td)) [0..<length (segments td)]))"
    by (simp add: process_transcript_segments_def)
  moreover have "int (Suc (length (segments td)) - window_size)
                 = max 0 (int (length (segments td)) - int window_size + 1)"
    by (simp add: window_size_def)
  ultimately show ?thesis
    by (simp add: single_count window_count window_size_def)
qed

theorem transcript_segmenter_counts_witness:
  "segments example_transcript \<noteq> []
   \<and> map window_type (projr (process_transcript_segments example_transcript))
       = [''single'', ''window'', ''single'', ''window'', ''single'', ''single'']"
  using transcript_segmenter_counts [of example_transcript]
  by (simp add: process_transcript_segments_def example_transcript_def window_entries_def
      window_size_def upt_rec)

subsection \<open>Quality validator\<close>

text \<open>The validator never raises: both divisions are guarded by \<open>total_scenes > 0\<close>.\<close>

lemma validator_total: "\<exists>r. validate_alignment_quality xs = Inr r"
  by (cases xs) (simp_all add: validate_alignment_quality_def truediv_def Let_def)

text \<open>
  Claim C4 as stated fails: on the empty list the temporal consistency is 1, not 0, and
  manual review is needed, since the quality score 0.2 is below 0.6.
\<close>

theorem validator_empty_counterexample:
  "\<not> (temporal_consistency (quality_factors (projr (validate_alignment_quality []))) = 0
      \<and> needs_manual_review (projr (validate_alignment_quality [])) = False)"
  by (simp add: validate_alignment_quality_def generate_alignment_recommendations_def)

text \<open>
  Claim C4, as amended. On the empty list the validator does not fail and returns
  \<open>total_scenes = 0\<close>, \<open>average_confidence = 0\<close>, \<open>high_confidence_ratio = 0\<close>,
  \<open>temporal_consistency = 1\<close>, \<open>quality_score = 0.2\<close> and
  \<open>needs_manual_review = true\<close>.
\<close>

theorem validator_empty:
  "validate_alignment_quality [] =
     Inr \<lparr>status = ''success'', quality_score = 2 / 10,
          quality_factors = \<lparr>average_confidence = 0, high_confidence_ratio = 0,
                               temporal_consistency = 1\<rparr>,
          scene_statistics = \<lparr>total_scenes = 0, high_confidence = 0, medium_confidence = 0,
                                 low_confidence = 0, temporal_conflicts = 0\<rparr>,
          needs_manual_review = True,
          recommendations =
            [''Consider reviewing script content for clarity and detail'',
             ''Many scenes have low confidence matches - manual review recommended'']\<rparr>"
  by (simp add: validate_alignment_quality_def generate_alignment_recommendations_def)

subsection \<open>Matcher\<close>

lemma cosine_similarity_Inr:
  assumes "cosine_similarity X Y = Inr M"
  shows "valid_array X" "valid_array Y" "length (hd X) = length (hd Y)"
    "M = map (\<lambda>x. map (\<lambda>y. dot (normalize_row x) (normalize_row y)) Y) X"
proof -
  have c: "valid_array X \<and> valid_array Y \<and> length (hd X) = length (hd Y)"
  proof (rule ccontr)
    assume "\<not> ?thesis"
    then have "cosine_similarity X Y = Inl ValueError"
      unfolding cosine_similarity_def by (rule if_not_P)
    with assms show False by simp
  qed
  then show "valid_array X" "valid_array Y" "length (hd X) = length (hd Y)" by blast+
  from c have "cosine_similarity X Y
               = Inr (map (\<lambda>x. map (\<lambda>y. dot (normalize_row x) (normalize_row y)) Y) X)"
    unfolding cosine_similarity_def by (rule if_P)
  with assms show "M = map (\<lambda>x. map (\<lambda>y. dot (normalize_row x) (normalize_row y)) Y) X"
    by simp
qed


























lemmas matcher_eval =
  perform_semantic_matching_def cosine_similarity_def valid_array_def normalize_row_def
  l2_norm_def dot_def match_scene_def py_index_def stable_argsort_def
  compute_length_similarity_def compute_position_similarity_def get_confidence_def
  alternative_match_def truediv_def example_scene_def example_candidate_def











lemma py_index_fails: "py_index xs k = Inl e \<Longrightarrow> e = IndexError"
  unfolding py_index_def by (cases "k < length xs") simp_all

lemma py_index_empty: "py_index [] k = Inl IndexError"
  by (simp add: py_index_def)

text \<open>Without segments every scene fails: no index of a segment is in range.\<close>

lemma match_scene_no_segments: "match_scene argsort n [] M i sc = Inl IndexError"
proof (cases "py_index M i")
  case (Inl e)
  then have "e = IndexError" by (rule py_index_fails)
  with Inl show ?thesis by (simp add: match_scene_def)
next
  case row: (Inr row)
  show ?thesis
  proof (cases "py_index (take 5 (rev (argsort row))) 0")
    case (Inl e)
    then have "e = IndexError" by (rule py_index_fails)
    with Inl row show ?thesis by (simp add: match_scene_def Let_def)
  next
    case (Inr j)
    with row show ?thesis by (simp add: match_scene_def Let_def py_index_empty)
  qed
qed

text \<open>
  Claim C5 as stated fails: with no scenes and embeddings that the similarity
  computation accepts, the matcher's loop does not run and the call returns the empty
  alignment sequence.
\<close>

theorem matcher_returns_for_no_scenes:
  "perform_semantic_matching stable_argsort [] [example_candidate] [[1]] [[1]] = Inr []"
  by (simp add: matcher_eval)

text \<open>
  Claim C5, as amended. The matcher has no check of its own for empty input. When the
  scene list or the segment list is empty: with as many embeddings as scenes and as
  segments, the call fails with the ValueError that the similarity computation raises
  for an empty array; with embeddings that the similarity computation accepts, the call
  returns the empty alignment sequence when there are no scenes, and fails with
  IndexError at the first scene when there are scenes but no segments.
\<close>

theorem matcher_on_empty_input:
  assumes "scs = [] \<or> segs = []"
  shows "(length scene_embeddings = length scs \<and> length segment_embeddings = length segs \<longrightarrow>
            perform_semantic_matching argsort scs segs scene_embeddings segment_embeddings
            = Inl ValueError)
         \<and> (cosine_similarity scene_embeddings segment_embeddings = Inr M \<longrightarrow>
            perform_semantic_matching argsort scs segs scene_embeddings segment_embeddings
            = (if scs = [] then Inr [] else Inl IndexError))"
proof (intro conjI impI)
  assume "length scene_embeddings = length scs \<and> length segment_embeddings = length segs"
  with assms have "scene_embeddings = [] \<or> segment_embeddings = []" by auto
  then have "\<not> (valid_array scene_embeddings \<and> valid_array segment_embeddings
               \<and> length (hd scene_embeddings) = length (hd segment_embeddings))"
    unfolding valid_array_def by blast
  then have "cosine_similarity scene_embeddings segment_embeddings = Inl ValueError"
    unfolding cosine_similarity_def by (rule if_not_P)
  then show "perform_semantic_matching argsort scs segs scene_embeddings segment_embeddings
             = Inl ValueError"
    unfolding perform_semantic_matching_def by simp
next
  assume cos: "cosine_similarity scene_embeddings segment_embeddings = Inr M"
  show "perform_semantic_matching argsort scs segs scene_embeddings segment_embeddings
        = (if scs = [] then Inr [] else Inl IndexError)"
  proof (cases scs)
    case Nil
    then show ?thesis by (simp add: perform_semantic_matching_def cos)
  next
    case (Cons sc rest)
    with assms have segs: "segs = []" by simp
    have "zip [0..<length (sc # rest)] (sc # rest) = (0, sc) # zip [1..<length (sc # rest)] rest"
      by (simp add: upt_rec)
    then show ?thesis
      unfolding perform_semantic_matching_def cos Cons segs
      by (simp add: match_scene_no_segments)
  qed
qed

theorem matcher_on_empty_input_witness:
  "perform_semantic_matching stable_argsort [] [example_candidate] [] [[1]] = Inl ValueError
   \<and> perform_semantic_matching stable_argsort [example_scene] [] [[1]] [] = Inl ValueError
   \<and> cosine_similarity [[1]] [[1]] = Inr [[1]]
   \<and> perform_semantic_matching stable_argsort [] [example_candidate] [[1]] [[1]] = Inr []
   \<and> perform_semantic_matching stable_argsort [example_scene] [] [[1]] [[1]] = Inl IndexError"
proof -
  have cos: "cosine_similarity [[1]] [[1]] = Inr [[1]]"
    by (simp add: matcher_eval)
  from matcher_on_empty_input [of "[]" "[example_candidate]" "[]" "[[1]]" stable_argsort]
  have 1: "perform_semantic_matching stable_argsort [] [example_candidate] [] [[1]]
           = Inl ValueError" by simp
  from matcher_on_empty_input [of "[example_scene]" "[]" "[[1]]" "[]" stable_argsort]
  have 2: "perform_semantic_matching stable_argsort [example_scene] [] [[1]] []
           = Inl ValueError" by simp
  from matcher_on_empty_input [of "[]" "[example_candidate]" "[[1]]" "[[1]]" stable_argsort "[[1]]"] cos
  have 3: "perform_semantic_matching stable_argsort [] [example_candidate] [[1]] [[1]] = Inr []"
    by simp
  from matcher_on_empty_input [of "[example_scene]" "[]" "[[1]]" "[[1]]" stable_argsort "[[1]]"] cos
  have 4: "perform_semantic_matching stable_argsort [example_scene] [] [[1]] [[1]]
           = Inl IndexError" by simp
  from 1 2 cos 3 4 show ?thesis by (simp only: simp_thms)
qed

end
